theory Spec2Isabelle
  imports Complex_Main
begin

section \<open>Values of the descriptors\<close>

text \<open>
  The repository is declarative: a links module, a sidebar descriptor and a site
  configuration descriptor (each a TypeScript object literal), and a corpus of Markdown
  content files with optional YAML front-matter. The literals are embedded as values of
  \<open>js_value\<close>. An object literal is an association list in source order, so that a key
  written twice stays visible; an array is a list. \<open>JExt\<close> is a reference to a value
  imported from another package (\<open>prismThemes.github\<close>), \<open>JFun\<close> the arrow function of
  \<open>editUrl\<close>, from the two destructured strings to the URL. Strings are byte lists; a
  character beyond ASCII is its UTF-8 bytes.
\<close>

datatype js_value =
    JUndefined
  | JStr string
  | JNum rat
  | JBool bool
  | JArr "js_value list"
  | JObj "(string \<times> js_value) list"
  | JExt string
  | JFun "string \<Rightarrow> string \<Rightarrow> string"

text \<open>Property access \<open>o.k\<close>: the last binding of a key written twice wins, a missing
  key reads as \<open>undefined\<close>.\<close>

fun get :: "js_value \<Rightarrow> string \<Rightarrow> js_value" where
  "get (JObj fs) k = (case map_of (rev fs) k of Some v \<Rightarrow> v | None \<Rightarrow> JUndefined)"
| "get _ k = JUndefined"

text \<open>The operator \<open>+\<close> on the operands the sources give it: strings, and \<open>undefined\<close>
  beside a string (which JavaScript renders as the text \<open>undefined\<close>). No other operand
  kind occurs in the sources; the model maps those to \<open>JUndefined\<close>.\<close>

fun js_add :: "js_value \<Rightarrow> js_value \<Rightarrow> js_value" where
  "js_add (JStr a) (JStr b) = JStr (a @ b)"
| "js_add JUndefined (JStr b) = JStr (''undefined'' @ b)"
| "js_add (JStr a) JUndefined = JStr (a @ ''undefined'')"
| "js_add _ _ = JUndefined"

fun object_fields :: "js_value \<Rightarrow> (string \<times> js_value) list" where
  "object_fields (JObj fs) = fs"
| "object_fields _ = []"

fun elems :: "js_value \<Rightarrow> js_value list" where
  "elems (JArr xs) = xs"
| "elems _ = []"

fun strs :: "js_value list \<Rightarrow> string list" where
  "strs [] = []"
| "strs (JStr s # vs) = s # strs vs"
| "strs (_ # vs) = strs vs"

text \<open>An integer inside a template literal is rendered in decimal.\<close>

fun digits :: "nat \<Rightarrow> string" where
  "digits n =
     (if n < 10 then [''0123456789'' ! n]
      else digits (n div 10) @ [''0123456789'' ! (n mod 10)])"

definition number_to_string :: "int \<Rightarrow> string" where
  "number_to_string i = (if i < 0 then ''-'' @ digits (nat (- i)) else digits (nat i))"

section \<open>The build environment\<close>

text \<open>What the configuration reads from outside: \<open>process.env.NODE_ENV\<close> (a string or
  undefined) and \<open>new Date().getFullYear()\<close>.\<close>

record environment =
  NODE_ENV :: "string option"
  fullYear :: int

section \<open>src/utils/links.ts\<close>

definition linkedinLink :: string where
  "linkedinLink = ''https://www.linkedin.com/in/narayann/''"

definition githubLink :: string where
  "githubLink = ''https://github.com/narayann7''"

definition gmailLink :: string where
  "gmailLink = ''mailto:social@narayann.dev''"

definition twitterLink :: string where
  "twitterLink = ''https://twitter.com/narayanndev''"

definition stackoverflowLink :: string where
  "stackoverflowLink = ''https://stackoverflow.com/users/14385914/narayann''"

definition portfolioLink :: string where
  "portfolioLink = ''https://narayann.dev''"

definition hostedCoreURL :: string where
  "hostedCoreURL = ''https://flutterprep.narayann.dev''"

definition links :: js_value where
  "links = JObj
     [(''linkedinLink'', JStr linkedinLink),
      (''githubLink'', JStr githubLink),
      (''gmailLink'', JStr gmailLink),
      (''twitterLink'', JStr twitterLink),
      (''stackoverflowLink'', JStr stackoverflowLink),
      (''portfolioLink'', JStr portfolioLink),
      (''hostedCoreURL'', JStr hostedCoreURL)]"

section \<open>docusaurus.config.ts\<close>

definition isDev :: "environment \<Rightarrow> bool" where
  "isDev env = (NODE_ENV env = Some ''development'')"

definition config :: "environment \<Rightarrow> js_value" where
  "config env = JObj
     [(''title'', JStr ''Flutter Interview Prep''),
      (''tagline'', JStr ''Curated Flutter interview questions and answers.''),
      (''favicon'', JStr ''img/favicon.ico''),
      (''future'', JObj [(''v4'', JBool True)]),
      (''url'', JStr ''https://narayann.dev''),
      (''baseUrl'', JStr (if isDev env then ''/'' else ''/flutter-interview-prep/'')),
      (''organizationName'', JStr ''narayann7''),
      (''projectName'', JStr ''flutter-interview-prep''),
      (''deploymentBranch'', JStr ''gh-pages''),
      (''trailingSlash'', JBool False),
      (''onBrokenLinks'', JStr ''warn''),
      (''onBrokenMarkdownLinks'', JStr ''warn''),
      (''i18n'', JObj
        [(''defaultLocale'', JStr ''en''),
         (''locales'', JArr [JStr ''en''])]),
      (''presets'', JArr
        [JArr
          [JStr ''classic'',
           JObj
            [(''docs'', JObj
               [(''sidebarPath'', JStr ''./sidebars.ts''),
                (''editUrl'',
                   JStr ''https://github.com/narayann7/flutter-interview-prep/edit/main/'')]),
             (''blog'', JBool False),
             (''theme'', JObj [(''customCss'', JStr ''./src/css/custom.css'')]),
             (''sitemap'', JObj
               [(''changefreq'', JStr ''weekly''),
                (''priority'', JNum (1 / 2)),
                (''filename'', JStr ''sitemap.xml'')])]]]),
      (''themeConfig'', JObj
        [(''image'', JStr ''img/social-card.jpg''),
         (''colorMode'', JObj [(''respectPrefersColorScheme'', JBool True)]),
         (''navbar'', JObj
           [(''title'', JStr ''Flutter Interview Prep''),
            (''logo'', JObj
              [(''alt'', JStr ''Flutter Interview Prep Logo''),
               (''src'', JStr ''img/logo.svg'')]),
            (''items'', JArr
              [JObj
                [(''href'', JStr ''https://github.com/narayann7/flutter-interview-prep''),
                 (''label'', JStr ''GitHub''),
                 (''position'', JStr ''right'')]])]),
         (''footer'', JObj
           [(''style'', JStr ''dark''),
            (''links'', JArr
              [JObj
                [(''title'', JStr ''Docs''),
                 (''items'', JArr
                   [JObj [(''label'', JStr ''Start''), (''to'', JStr ''/docs/intro'')]])],
               JObj
                [(''title'', JStr ''Community''),
                 (''items'', JArr
                   [JObj
                     [(''label'', JStr ''Stack Overflow''),
                      (''href'', JStr ''https://stackoverflow.com/questions/tagged/flutter'')],
                    JObj
                     [(''label'', JStr ''Twitter''),
                      (''href'', JStr ''https://x.com/docusaurus'')]])]]),
            (''copyright'', JStr
              (''Copyright '' @ [CHR 0xC2, CHR 0xA9] @ '' '' @ number_to_string (fullYear env)
                 @ '' Narayann. Built with Docusaurus.''))]),
         (''prism'', JObj
           [(''theme'', JExt ''prismThemes.github''),
            (''darkTheme'', JExt ''prismThemes.dracula'')]),
         (''metadata'', JArr
           [JObj
             [(''name'', JStr ''description''),
              (''content'', JStr
                ''Prepare for your Flutter interviews with curated questions and answers.'')],
            JObj
             [(''name'', JStr ''keywords''),
              (''content'', JStr ''Flutter, Dart, interview questions, SDE, coding prep'')]])])]"

section \<open>The configuration of src/unnamed/part\_004\<close>

definition config_part_004 :: js_value where
  "config_part_004 = JObj
     [(''title'', JStr ''Flutter Interview Prep''),
      (''tagline'', JStr ''Curated Flutter interview questions and answers.''),
      (''favicon'', JStr ''img/flutter/icon_flutter.png''),
      (''future'', JObj [(''v4'', JBool True)]),
      (''url'', get links ''hostedCoreURL''),
      (''baseUrl'', JStr ''/''),
      (''organizationName'', JStr ''narayann7''),
      (''projectName'', JStr ''flutter-interview-prep''),
      (''deploymentBranch'', JStr ''main''),
      (''trailingSlash'', JBool False),
      (''onBrokenLinks'', JStr ''warn''),
      (''onBrokenMarkdownLinks'', JStr ''warn''),
      (''i18n'', JObj
        [(''defaultLocale'', JStr ''en''),
         (''locales'', JArr [JStr ''en''])]),
      (''presets'', JArr
        [JArr
          [JStr ''classic'',
           JObj
            [(''docs'', JObj
               [(''sidebarPath'', JStr ''./sidebars.ts''),
                (''editUrl'',
                   JStr ''https://github.com/narayann7/flutter-interview-prep/edit/main/'')]),
             (''blog'', JBool False),
             (''theme'', JObj [(''customCss'', JStr ''./src/css/custom.css'')]),
             (''sitemap'', JObj
               [(''changefreq'', JStr ''weekly''),
                (''priority'', JNum (1 / 2)),
                (''filename'', JStr ''sitemap.xml'')])]]]),
      (''themeConfig'', JObj
        [(''image'', JStr ''img/social-card.jpg''),
         (''colorMode'', JObj
           [(''respectPrefersColorScheme'', JBool True),
            (''defaultMode'', JStr ''dark'')]),
         (''navbar'', JObj
           [(''title'', JStr ''Flutter Interview Prep''),
            (''logo'', JObj
              [(''alt'', JStr ''Flutter Interview Prep Logo''),
               (''src'', JStr ''img/flutter/icon_flutter.svg'')]),
            (''items'', JArr
              [JObj
                [(''href'', js_add (get links ''githubLink'') (JStr ''/flutter-interview-prep'')),
                 (''label'', JStr ''GitHub''),
                 (''position'', JStr ''right'')],
               JObj
                [(''href'', get links ''gmailLink''),
                 (''label'', JStr ''Contact''),
                 (''position'', JStr ''right'')]])]),
         (''prism'', JObj
           [(''theme'', JExt ''prismThemes.oceanicNext''),
            (''darkTheme'', JExt ''prismThemes.oceanicNext''),
            (''additionalLanguages'', JArr [JStr ''dart'', JStr ''java'', JStr ''graphql''])]),
         (''metadata'', JArr
           [JObj
             [(''name'', JStr ''description''),
              (''content'', JStr
                (''Prepare for your Flutter interviews with curated questions, answers, ''
                 @ ''and topic guides. Built for SDE2 aspirants and Flutter developers.''))],
            JObj
             [(''name'', JStr ''keywords''),
              (''content'', JStr
                (''Flutter, Dart, interview questions, SDE, coding prep, DSA, software ''
                 @ ''developer, mobile app, technical interview, flutter web''))],
            JObj [(''name'', JStr ''author''), (''content'', JStr ''Narayann Dev'')],
            JObj [(''name'', JStr ''robots''), (''content'', JStr ''index, follow'')],
            JObj
             [(''property'', JStr ''og:title''),
              (''content'', JStr ''Flutter Interview Prep Guide'')],
            JObj
             [(''property'', JStr ''og:description''),
              (''content'', JStr
                (''Curated Flutter interview questions and detailed answers for aspiring ''
                 @ ''SDE2 and mobile developers.''))],
            JObj [(''property'', JStr ''og:type''), (''content'', JStr ''website'')],
            JObj
             [(''property'', JStr ''og:url''),
              (''content'', get links ''hostedCoreURL'')]])])]"

section \<open>The configuration of src/unnamed/part\_005\<close>

definition coreDomainUrl :: string where
  "coreDomainUrl = ''https://narayann.dev''"

definition baseGitHubUrl :: string where
  "baseGitHubUrl = ''https://github.com/narayann7/''"

definition editUrl :: "string \<Rightarrow> string \<Rightarrow> string" where
  "editUrl versionDocsDirPath docPath =
     baseGitHubUrl @ ''flutter-interview-prep/blob/main/'' @ versionDocsDirPath @ ''/'' @ docPath"

definition config_part_005 :: "environment \<Rightarrow> js_value" where
  "config_part_005 env = JObj
     [(''title'', JStr ''Flutter Interview Prep''),
      (''tagline'', JStr
         ''Prepare for your Flutter interviews with curated questions and answers.''),
      (''favicon'', JStr ''img/favicon.ico''),
      (''future'', JObj [(''v4'', JBool True)]),
      (''url'', JStr ''https://narayann7.github.io''),
      (''baseUrl'', JStr ''/flutter-interview-prep/''),
      (''organizationName'', JStr ''narayann7''),
      (''projectName'', JStr ''flutter-interview-prep''),
      (''onBrokenLinks'', JStr ''throw''),
      (''i18n'', JObj
        [(''defaultLocale'', JStr ''en''),
         (''locales'', JArr [JStr ''en''])]),
      (''presets'', JArr
        [JArr
          [JStr ''classic'',
           JObj
            [(''docs'', JObj
               [(''sidebarPath'', JStr ''./sidebars.ts''),
                (''editUrl'', JFun editUrl)]),
             (''theme'', JObj [(''customCss'', JStr ''./src/css/custom.css'')])]]]),
      (''themeConfig'', JObj
        [(''image'', JStr ''img/docusaurus-social-card.jpg''),
         (''colorMode'', JObj [(''respectPrefersColorScheme'', JBool True)]),
         (''navbar'', JObj
           [(''title'', JStr ''Flutter Interview Prep''),
            (''logo'', JObj
              [(''alt'', JStr ''Flutter Interview Prep Logo''),
               (''src'', JStr ''img/logo.svg'')]),
            (''items'', JArr
              [JObj
                [(''href'', JStr (baseGitHubUrl @ ''flutter-interview-prep'')),
                 (''label'', JStr ''GitHub''),
                 (''position'', JStr ''right'')]])]),
         (''footer'', JObj
           [(''style'', JStr ''dark''),
            (''links'', JArr
              [JObj
                [(''title'', JStr ''Docs''),
                 (''items'', JArr
                   [JObj [(''label'', JStr ''Intro''), (''to'', JStr ''/docs/intro'')]])],
               JObj
                [(''title'', JStr ''Community''),
                 (''items'', JArr
                   [JObj
                     [(''label'', JStr ''Stack Overflow''),
                      (''href'', JStr ''https://stackoverflow.com/questions/tagged/docusaurus'')],
                    JObj
                     [(''label'', JStr ''Discord''),
                      (''href'', JStr ''https://discordapp.com/invite/docusaurus'')],
                    JObj
                     [(''label'', JStr ''X''),
                      (''href'', JStr ''https://x.com/docusaurus'')]])]]),
            (''copyright'', JStr
              (''Copyright '' @ [CHR 0xC2, CHR 0xA9] @ '' '' @ number_to_string (fullYear env)
                 @ '' Narayan N. Built with Docusaurus.''))]),
         (''prism'', JObj
           [(''theme'', JExt ''prismThemes.github''),
            (''darkTheme'', JExt ''prismThemes.dracula'')])])]"

section \<open>sidebars.ts\<close>

text \<open>The entries that the source keeps in comments are not part of the value.\<close>

definition sidebars :: js_value where
  "sidebars = JObj
     [(''tutorialSidebar'', JArr
        [JObj
          [(''type'', JStr ''doc''),
           (''id'', JStr ''welcome''),
           (''label'', JStr ''Welcome'')],
         JObj
          [(''type'', JStr ''category''),
           (''label'', JStr ''Fundamentals''),
           (''items'', JArr
             [JStr ''fundamentals/widgets_overview'',
              JStr ''fundamentals/stateless_vs_stateful'',
              JStr ''fundamentals/buildcontext_and_lifecycle'',
              JStr ''fundamentals/keys_in_flutter'',
              JStr ''fundamentals/container_const_explained''])]])]"

section \<open>The sidebar of src/unnamed/part\_003\<close>

definition sidebars_part_003 :: js_value where
  "sidebars_part_003 = JObj
     [(''tutorialSidebar'', JArr
        [JObj
          [(''type'', JStr ''doc''),
           (''id'', JStr ''welcome''),
           (''label'', JStr ''Welcome'')],
         JObj
          [(''type'', JStr ''category''),
           (''label'', JStr ''Fundamentals''),
           (''items'', JArr
             [JStr ''fundamentals/widgets_overview'',
              JStr ''fundamentals/stateless_vs_stateful'',
              JStr ''fundamentals/buildcontext_and_lifecycle'',
              JStr ''fundamentals/keys_in_flutter'',
              JStr ''fundamentals/container_const_explained''])],
         JObj
          [(''type'', JStr ''category''),
           (''label'', JStr ''Layouts & Rendering''),
           (''items'', JArr
             [JStr ''layouts_and_rendering/repaint_boundary'',
              JStr ''layouts_and_rendering/flexible_and_flex'',
              JStr ''layouts_and_rendering/custom_paint_and_canvas'',
              JStr ''layouts_and_rendering/performance_optimization_tips''])],
         JObj
          [(''type'', JStr ''category''),
           (''label'', JStr ''Dart Language Concepts''),
           (''items'', JArr
             [JStr ''dart_language_concepts/mixins_in_dart'',
              JStr ''dart_language_concepts/iterables_vs_lists'',
              JStr ''dart_language_concepts/async_asyncstar_syncstar'',
              JStr ''dart_language_concepts/throttle_vs_debounce''])],
         JObj
          [(''type'', JStr ''category''),
           (''label'', JStr ''Architecture & Engine''),
           (''items'', JArr
             [JStr ''architecture_and_engine/flutter_engine_internals'',
              JStr ''architecture_and_engine/tree_shaking'',
              JStr ''architecture_and_engine/build_modes'',
              JStr ''architecture_and_engine/state_in_flutter'',
              JStr ''architecture_and_engine/flutter_trees_and_rendering_pipeline''])],
         JObj
          [(''type'', JStr ''category''),
           (''label'', JStr ''Packages & Plugins''),
           (''items'', JArr
             [JStr ''packages_and_plugins/difference_packages_plugins'',
              JStr ''packages_and_plugins/dependency_management_best_practices''])],
         JObj
          [(''type'', JStr ''category''),
           (''label'', JStr ''State Management''),
           (''items'', JArr
             [JStr ''state_management/stateful_widget_lifecycle'',
              JStr ''state_management/provider_and_inheritedwidget'',
              JStr ''state_management/bloc_and_riverpod_intro'',
              JStr ''state_management/comparison_of_state_management''])],
         JObj
          [(''type'', JStr ''category''),
           (''label'', JStr ''Streams & Async Programming''),
           (''items'', JArr
             [JStr ''streams_and_async/streams_basics'',
              JStr ''streams_and_async/stream_transformers'',
              JStr ''streams_and_async/streambuilder_widget'',
              JStr ''streams_and_async/best_practices_for_streams''])],
         JObj
          [(''type'', JStr ''category''),
           (''label'', JStr ''Links & Navigation''),
           (''items'', JArr
             [JStr ''links_and_navigation/deep_linking'',
              JStr ''links_and_navigation/dynamic_linking'',
              JStr ''links_and_navigation/navigation_and_routes''])],
         JObj
          [(''type'', JStr ''category''),
           (''label'', JStr ''Advanced Topics''),
           (''items'', JArr
             [JStr ''advanced_topics/custom_widget_examples'',
              JStr ''advanced_topics/animation_with_custompaint'',
              JStr ''advanced_topics/app_lifecycle_states'',
              JStr ''advanced_topics/flutter_performance_insights''])]])]"

section \<open>The content corpus\<close>

text \<open>
  A content file is a Markdown document. Its front-matter, when it has one, is the YAML
  block between two \<open>---\<close> lines at the very start of the document, embedded as the
  association list of its fields in source order. The Markdown body below the
  front-matter is prose that no descriptor reads; the embedding keeps the path of the
  document and its front-matter only. A file of the corpus that holds two documents
  contributes two entries under the same path.
\<close>

datatype yaml_value =
    YStr string
  | YInt int
  | YSeq "string list"

record content_file =
  source_path :: string
  front_matter :: "(string \<times> yaml_value) list option"

definition corpus :: "content_file list" where
  "corpus =
     [\<lparr>source_path = ''docs/welcome.md'',
       front_matter = Some
         [(''id'', YStr ''intro''),
          (''title'', YStr ([CHR 0xF0, CHR 0x9F, CHR 0x9A, CHR 0x80] @ '' Welcome'')),
          (''sidebar_position'', YInt 1)]\<rparr>,
      \<lparr>source_path = ''docs/welcome.md'',
       front_matter = Some
         [(''id'', YStr ''welcome''),
          (''title'', YStr ''Welcome''),
          (''sidebar_position'', YInt 1)]\<rparr>,
      \<lparr>source_path = ''docs/cs/backend/graphql.md'', front_matter = None\<rparr>,
      \<lparr>source_path = ''docs/cs/backend/graphql.md'', front_matter = None\<rparr>,
      \<lparr>source_path = ''docs/cs/languages/java/String, StringBuffer and StringBuilder.md'',
       front_matter = None\<rparr>,
      \<lparr>source_path = ''docs/cs/languages/java/String, StringBuffer and StringBuilder.md'',
       front_matter = Some
         [(''id'', YStr ''flutter_trees_and_rendering_pipeline''),
          (''title'', YStr ''Flutter Trees and Rendering Pipeline''),
          (''sidebar_label'', YStr ''Flutter Trees and Rendering''),
          (''sidebar_position'', YInt 2),
          (''tags'', YSeq [''Advanced'', ''Rendering'', ''Architecture'', ''Important'']),
          (''description'', YStr
             (''A deep dive into Flutter's Widget, Element, Render, and Layer trees ''
              @ ''and how they interact within the rendering pipeline.'')),
          (''keywords'', YSeq
             [''Flutter'', ''Widget Tree'', ''Render Tree'', ''Element Tree'', ''Layer Tree'',
              ''Rendering'', ''Architecture''])]\<rparr>,
      \<lparr>source_path = ''docs/cs/mobile apps/android.md'', front_matter = None\<rparr>,
      \<lparr>source_path = ''docs/cs/nextjs/keypoints.md'', front_matter = None\<rparr>,
      \<lparr>source_path = ''docs/cs/nextjs/keypoints.md'', front_matter = None\<rparr>,
      \<lparr>source_path = ''docs/cs/system design/concepts/soild.md'', front_matter = None\<rparr>,
      \<lparr>source_path = ''unnamed/part_000'',
       front_matter = Some
         [(''id'', YStr ''buildcontext_and_lifecycle''),
          (''title'', YStr ''BuildContext and Lifecycle''),
          (''sidebar_label'', YStr ''BuildContext and Lifecycle''),
          (''sidebar_position'', YInt 1),
          (''tags'', YSeq [''Intermediate'', ''Widgets'']),
          (''description'', YStr
             ''Explanation of BuildContext and the widget lifecycle in Flutter.''),
          (''keywords'', YSeq [''Flutter'', ''BuildContext'', ''Lifecycle''])]\<rparr>,
      \<lparr>source_path = ''unnamed/part_001'', front_matter = None\<rparr>,
      \<lparr>source_path = ''unnamed/part_002'', front_matter = None\<rparr>]"

fun front_matters :: "content_file list \<Rightarrow> (string \<times> yaml_value) list list" where
  "front_matters [] = []"
| "front_matters (f # fs) =
     (case front_matter f of
        None \<Rightarrow> front_matters fs
      | Some fm \<Rightarrow> fm # front_matters fs)"

definition field_names :: "(string \<times> yaml_value) list \<Rightarrow> string list" where
  "field_names fm = map fst fm"

text \<open>The identifier a front-matter block declares: its \<open>id\<close> field, a string.\<close>

fun declared_id :: "(string \<times> yaml_value) list \<Rightarrow> string option" where
  "declared_id fm = (case map_of fm ''id'' of Some (YStr s) \<Rightarrow> Some s | _ \<Rightarrow> None)"

fun declared_ids :: "(string \<times> yaml_value) list list \<Rightarrow> string list" where
  "declared_ids [] = []"
| "declared_ids (fm # fms) =
     (case declared_id fm of
        None \<Rightarrow> declared_ids fms
      | Some s \<Rightarrow> s # declared_ids fms)"

section \<open>Reading the descriptors\<close>

text \<open>The entries of the sidebar, the identifiers its doc entries name, and the
  identifiers listed as items of its categories.\<close>

definition entries :: "js_value \<Rightarrow> js_value list" where
  "entries sb = elems (get sb ''tutorialSidebar'')"

definition is_str :: "js_value \<Rightarrow> bool" where
  "is_str v = (case v of JStr s \<Rightarrow> True | _ \<Rightarrow> False)"

text \<open>A value is the given string (written without equality on \<open>js_value\<close>, which
  no program decides on functions).\<close>

definition str_is :: "js_value \<Rightarrow> string \<Rightarrow> bool" where
  "str_is v s = (case v of JStr t \<Rightarrow> t = s | _ \<Rightarrow> False)"

definition is_doc :: "js_value \<Rightarrow> bool" where
  "is_doc e = (str_is (get e ''type'') ''doc'' \<and> is_str (get e ''id'') \<and> is_str (get e ''label''))"

definition is_category :: "js_value \<Rightarrow> bool" where
  "is_category e =
     (str_is (get e ''type'') ''category'' \<and> is_str (get e ''label'')
      \<and> (case get e ''items'' of JArr xs \<Rightarrow> list_all is_str xs | _ \<Rightarrow> False))"

definition doc_entry_ids :: "js_value \<Rightarrow> string list" where
  "doc_entry_ids sb = strs (map (\<lambda>e. get e ''id'') (filter is_doc (entries sb)))"

definition category_items :: "js_value \<Rightarrow> string list" where
  "category_items sb = concat (map (\<lambda>e. strs (elems (get e ''items''))) (entries sb))"

text \<open>The link items of a configuration: the items of the navbar, and the items of
  every column of the footer.\<close>

definition navbar_items :: "js_value \<Rightarrow> js_value list" where
  "navbar_items cfg = elems (get (get (get cfg ''themeConfig'') ''navbar'') ''items'')"

definition footer_items :: "js_value \<Rightarrow> js_value list" where
  "footer_items cfg =
     concat (map (\<lambda>col. elems (get col ''items''))
       (elems (get (get (get cfg ''themeConfig'') ''footer'') ''links'')))"

definition starts_with :: "string \<Rightarrow> string \<Rightarrow> bool" where
  "starts_with p s = (take (length p) s = p)"

definition absolute_url :: "js_value \<Rightarrow> bool" where
  "absolute_url v =
     (case v of
        JStr s \<Rightarrow> starts_with ''https://'' s \<or> starts_with ''mailto:'' s
      | _ \<Rightarrow> False)"

definition site_relative :: "js_value \<Rightarrow> bool" where
  "site_relative v = (case v of JStr s \<Rightarrow> starts_with ''/'' s | _ \<Rightarrow> False)"

definition link_item_ok :: "js_value \<Rightarrow> bool" where
  "link_item_ok item = (absolute_url (get item ''href'') \<or> site_relative (get item ''to''))"

text \<open>No key is written twice in any object literal of a value, at any depth.\<close>

fun no_duplicate_keys :: "js_value \<Rightarrow> bool"
  and no_duplicate_keys_list :: "js_value list \<Rightarrow> bool"
  and no_duplicate_keys_fields :: "(string \<times> js_value) list \<Rightarrow> bool" where
  "no_duplicate_keys (JObj fs) = (distinct (map fst fs) \<and> no_duplicate_keys_fields fs)"
| "no_duplicate_keys (JArr xs) = no_duplicate_keys_list xs"
| "no_duplicate_keys _ = True"
| "no_duplicate_keys_list [] = True"
| "no_duplicate_keys_list (x # xs) = (no_duplicate_keys x \<and> no_duplicate_keys_list xs)"
| "no_duplicate_keys_fields [] = True"
| "no_duplicate_keys_fields (f # fs) = (no_duplicate_keys (snd f) \<and> no_duplicate_keys_fields fs)"

section \<open>Resolving a reference\<close>

text \<open>
  The generator names a document by the id of its front-matter or, when the
  front-matter declares none, by the name of its file without the extension; a
  reference of the sidebar is that name under the directory of the file
  (\<open>fundamentals/keys_in_flutter\<close>). The directories that the documents have on the site
  are not all known from the corpus, so a reference is matched by its last path segment
  alone: a reference that meets no document this way meets none under any placement of
  the documents of the corpus.
\<close>

definition last_segment :: "string \<Rightarrow> string" where
  "last_segment s = rev (takeWhile (\<lambda>c. c \<noteq> CHR ''/'') (rev s))"

definition file_stem :: "string \<Rightarrow> string" where
  "file_stem p =
     (let n = last_segment p in
      if 3 \<le> length n \<and> drop (length n - 3) n = ''.md'' then take (length n - 3) n else n)"

definition document_id :: "content_file \<Rightarrow> string" where
  "document_id f =
     (case front_matter f of
        None \<Rightarrow> file_stem (source_path f)
      | Some fm \<Rightarrow>
          (case declared_id fm of
             None \<Rightarrow> file_stem (source_path f)
           | Some s \<Rightarrow> s))"

definition resolves :: "content_file list \<Rightarrow> string \<Rightarrow> bool" where
  "resolves c r = (last_segment r \<in> set (map document_id c))"

definition referenced_ids :: "js_value \<Rightarrow> string list" where
  "referenced_ids sb = doc_entry_ids sb @ category_items sb"

section \<open>The text of the descriptors\<close>

text \<open>
  A descriptor is source text before it is a value. The tokens and the grammar below are
  those of the TypeScript that the descriptor files are written in: imports, \<open>const\<close>
  declarations, \<open>export default\<close>, and expressions built from literals, template
  literals, identifiers, member access, calls, \<open>new\<close>, \<open>+\<close>, \<open>===\<close>, the conditional,
  \<open>satisfies\<close>, arrays, object literals and arrow functions. Text outside this grammar
  does not parse.
\<close>

datatype token =
    Ident string
  | StrLit string
  | NumLit string
  | Punct string
  | TplOpen
  | TplChunk string
  | SubstOpen
  | SubstClose
  | TplClose

datatype lex_mode =
    Code
  | InIdent string
  | InNum string
  | InStr char string
  | InOp string
  | Slash
  | LineComment
  | InTpl string
  | InTplDollar string

definition is_letter :: "char \<Rightarrow> bool" where
  "is_letter c =
     (let n = (of_char c :: nat) in
        (97 \<le> n \<and> n \<le> 122) \<or> (65 \<le> n \<and> n \<le> 90) \<or> c = CHR ''_'' \<or> c = CHR ''$'')"

definition is_digit :: "char \<Rightarrow> bool" where
  "is_digit c = (let n = (of_char c :: nat) in 48 \<le> n \<and> n \<le> 57)"

definition is_space :: "char \<Rightarrow> bool" where
  "is_space c = (c = CHR '' '' \<or> c = CHR 0x0A \<or> c = CHR 0x09 \<or> c = CHR 0x0D)"

text \<open>One character read in code position. The stack counts, for every open template
  substitution, the braces opened inside it, so that the brace closing the
  substitution is told from the brace closing an object literal.\<close>

definition code_step :: "nat list \<Rightarrow> char \<Rightarrow> (token list \<times> lex_mode \<times> nat list) option" where
  "code_step st c =
     (if is_space c then Some ([], Code, st)
      else if is_letter c then Some ([], InIdent [c], st)
      else if is_digit c then Some ([], InNum [c], st)
      else if c = CHR 0x27 \<or> c = CHR 0x22 then Some ([], InStr c [], st)
      else if c = CHR 0x60 then Some ([TplOpen], InTpl [], st)
      else if c = CHR ''/'' then Some ([], Slash, st)
      else if c = CHR ''{'' then
        Some ([Punct [c]], Code, (case st of [] \<Rightarrow> [] | d # ds \<Rightarrow> Suc d # ds))
      else if c = CHR ''}'' then
        (case st of
           [] \<Rightarrow> Some ([Punct [c]], Code, [])
         | 0 # ds \<Rightarrow> Some ([SubstClose], InTpl [], ds)
         | Suc d # ds \<Rightarrow> Some ([Punct [c]], Code, d # ds))
      else if c = CHR ''='' \<or> c = CHR ''>'' then Some ([], InOp [c], st)
      else if c \<in> set ''()[],;:.?+*'' then Some ([Punct [c]], Code, st)
      else None)"

definition after_token :: "token \<Rightarrow> nat list \<Rightarrow> char \<Rightarrow> (token list \<times> lex_mode \<times> nat list) option" where
  "after_token t st c =
     (case code_step st c of
        None \<Rightarrow> None
      | Some (ts, m, st') \<Rightarrow> Some (t # ts, m, st'))"

fun lex_step :: "lex_mode \<Rightarrow> nat list \<Rightarrow> char \<Rightarrow> (token list \<times> lex_mode \<times> nat list) option" where
  "lex_step Code st c = code_step st c"
| "lex_step (InIdent a) st c =
     (if is_letter c \<or> is_digit c then Some ([], InIdent (c # a), st)
      else after_token (Ident (rev a)) st c)"
| "lex_step (InNum a) st c =
     (if is_digit c \<or> c = CHR ''.'' then Some ([], InNum (c # a), st)
      else if is_letter c then None
      else after_token (NumLit (rev a)) st c)"
| "lex_step (InStr q a) st c =
     (if c = q then Some ([StrLit (rev a)], Code, st)
      else if c = CHR 0x0A \<or> c = CHR 0x5C then None
      else Some ([], InStr q (c # a), st))"
| "lex_step (InOp a) st c =
     (if c = CHR ''='' \<or> c = CHR ''>'' then Some ([], InOp (c # a), st)
      else after_token (Punct (rev a)) st c)"
| "lex_step Slash st c = (if c = CHR ''/'' then Some ([], LineComment, st) else None)"
| "lex_step LineComment st c =
     (if c = CHR 0x0A then Some ([], Code, st) else Some ([], LineComment, st))"
| "lex_step (InTpl a) st c =
     (if c = CHR 0x60 then Some ([TplChunk (rev a), TplClose], Code, st)
      else if c = CHR ''$'' then Some ([], InTplDollar a, st)
      else if c = CHR 0x5C then None
      else Some ([], InTpl (c # a), st))"
| "lex_step (InTplDollar a) st c =
     (if c = CHR ''{'' then Some ([TplChunk (rev a), SubstOpen], Code, 0 # st)
      else if c = CHR 0x60 then Some ([TplChunk (rev (CHR ''$'' # a)), TplClose], Code, st)
      else if c = CHR ''$'' then Some ([], InTplDollar (CHR ''$'' # a), st)
      else if c = CHR 0x5C then None
      else Some ([], InTpl (c # CHR ''$'' # a), st))"

fun lex_chars :: "lex_mode \<Rightarrow> nat list \<Rightarrow> string \<Rightarrow> (token list \<times> lex_mode \<times> nat list) option" where
  "lex_chars m st [] = Some ([], m, st)"
| "lex_chars m st (c # cs) =
     (case lex_step m st c of
        None \<Rightarrow> None
      | Some (ts, m', st') \<Rightarrow>
          (case lex_chars m' st' cs of
             None \<Rightarrow> None
           | Some (ts', m'', st'') \<Rightarrow> Some (ts @ ts', m'', st'')))"

text \<open>A source is its list of lines; every line is read with its line end. At the end
  of the text no string, template or substitution may be open.\<close>

fun lex_lines :: "lex_mode \<Rightarrow> nat list \<Rightarrow> string list \<Rightarrow> token list option" where
  "lex_lines m st [] = (if m = Code \<and> st = [] then Some [] else None)"
| "lex_lines m st (l # ls) =
     (case lex_chars m st (l @ [CHR 0x0A]) of
        None \<Rightarrow> None
      | Some (ts, m', st') \<Rightarrow>
          (case lex_lines m' st' ls of
             None \<Rightarrow> None
           | Some ts' \<Rightarrow> Some (ts @ ts')))"

definition tokens :: "string list \<Rightarrow> token list option" where
  "tokens src = lex_lines Code [] src"

datatype expr =
    EStr string
  | ENum string
  | EBool bool
  | EIdent string
  | ETemplate "tpl_part list"
  | EMember expr string
  | ECall expr "expr list"
  | ENew expr "expr list"
  | EBinary string expr expr
  | ECond expr expr expr
  | EArray "expr list"
  | EObject "(string \<times> expr) list"
  | EArrow "string list" expr
  | ESatisfies expr "string list"
and tpl_part =
    Chunk string
  | Subst expr

datatype stmt =
    SImport "string list" string
  | SConst string expr
  | SExportDefault string

definition next_is :: "token \<Rightarrow> token list \<Rightarrow> bool" where
  "next_is t ts = (case ts of [] \<Rightarrow> False | x # r \<Rightarrow> x = t)"

definition expect :: "token \<Rightarrow> token list \<Rightarrow> token list option" where
  "expect t ts = (case ts of [] \<Rightarrow> None | x # r \<Rightarrow> if x = t then Some r else None)"

definition reserved :: "string list" where
  "reserved = [''new'', ''satisfies'', ''const'', ''import'', ''export'', ''default'', ''from'']"

text \<open>A type reference: \<open>Config\<close>, \<open>Preset.Options\<close>.\<close>

fun type_ref :: "token list \<Rightarrow> (string list \<times> token list) option" where
  "type_ref (Ident a # ts) =
     (case ts of
        Punct p # r \<Rightarrow>
          (if p = ''.'' then
             (case type_ref r of None \<Rightarrow> None | Some (as, r') \<Rightarrow> Some (a # as, r'))
           else Some ([a], ts))
      | _ \<Rightarrow> Some ([a], ts))"
| "type_ref _ = None"

text \<open>The names of a destructuring pattern or of an import list, after the opening
  brace: \<open>a, b as c }\<close>; a trailing comma is allowed. The local name is the one bound.
  The first argument bounds the number of names.\<close>

definition binding_name :: "token list \<Rightarrow> (string \<times> token list) option" where
  "binding_name ts =
     (case ts of
        Ident a # r \<Rightarrow>
          (case r of
             Ident k # Ident b # r1 \<Rightarrow> (if k = ''as'' then Some (b, r1) else None)
           | _ \<Rightarrow> Some (a, r))
      | _ \<Rightarrow> None)"

primrec binding_names :: "nat \<Rightarrow> token list \<Rightarrow> (string list \<times> token list) option" where
  "binding_names 0 ts = None"
| "binding_names (Suc n) ts =
     (if next_is (Punct ''}'') ts then Some ([], tl ts)
      else
        (case binding_name ts of
           None \<Rightarrow> None
         | Some (x, r) \<Rightarrow>
             (if next_is (Punct '','') r then
                (case binding_names n (tl r) of
                   None \<Rightarrow> None
                 | Some (xs, r1) \<Rightarrow> Some (x # xs, r1))
              else if next_is (Punct ''}'') r then Some ([x], tl r)
              else None)))"

text \<open>The head of an arrow function with a destructured parameter:
  \<open>({ a, b }) =>\<close>.\<close>

definition arrow_head :: "token list \<Rightarrow> (string list \<times> token list) option" where
  "arrow_head ts =
     (case ts of
        Punct p # Punct q # r \<Rightarrow>
          (if p = ''('' \<and> q = ''{'' then
             (case binding_names (length r) r of
                Some (xs, Punct c # Punct a # r') \<Rightarrow>
                  (if c = '')'' \<and> a = ''=>'' then Some (xs, r') else None)
              | _ \<Rightarrow> None)
           else None)
      | _ \<Rightarrow> None)"

text \<open>
  The expression grammar, by recursive descent. A rule is written against the parser
  \<open>p\<close> for the phrases it descends into: a nested expression, the next round of an
  operator chain, the rest of a template, of a list or of an object literal. These are
  the values of \<open>goal\<close>, and \<open>parse\<close> ties the rules together. Every descent spends one
  unit of the first argument of \<open>parse\<close>; a parse that runs out of it fails.
\<close>

datatype goal =
    GExpr
  | GEqualityRest expr
  | GAdditiveRest expr
  | GPostfixRest expr
  | GTemplate
  | GElements string
  | GProperties

datatype node =
    NExpr expr
  | NExprs "expr list"
  | NProps "(string \<times> expr) list"
  | NParts "tpl_part list"

type_synonym parser = "goal \<Rightarrow> token list \<Rightarrow> (node \<times> token list) option"

definition sub_expr :: "parser \<Rightarrow> goal \<Rightarrow> token list \<Rightarrow> (expr \<times> token list) option" where
  "sub_expr p g ts = (case p g ts of Some (NExpr e, r) \<Rightarrow> Some (e, r) | _ \<Rightarrow> None)"

definition sub_exprs :: "parser \<Rightarrow> goal \<Rightarrow> token list \<Rightarrow> (expr list \<times> token list) option" where
  "sub_exprs p g ts = (case p g ts of Some (NExprs es, r) \<Rightarrow> Some (es, r) | _ \<Rightarrow> None)"

definition sub_props ::
  "parser \<Rightarrow> goal \<Rightarrow> token list \<Rightarrow> ((string \<times> expr) list \<times> token list) option" where
  "sub_props p g ts = (case p g ts of Some (NProps ps, r) \<Rightarrow> Some (ps, r) | _ \<Rightarrow> None)"

definition sub_parts :: "parser \<Rightarrow> goal \<Rightarrow> token list \<Rightarrow> (tpl_part list \<times> token list) option" where
  "sub_parts p g ts = (case p g ts of Some (NParts ps, r) \<Rightarrow> Some (ps, r) | _ \<Rightarrow> None)"

text \<open>A primary expression: a literal, a name, a template literal, a parenthesised
  expression, an array or an object literal.\<close>

definition primary_rule :: "parser \<Rightarrow> token list \<Rightarrow> (expr \<times> token list) option" where
  "primary_rule p ts =
     (case ts of
        StrLit s # r \<Rightarrow> Some (EStr s, r)
      | NumLit s # r \<Rightarrow> Some (ENum s, r)
      | Ident x # r \<Rightarrow>
          (if x = ''true'' then Some (EBool True, r)
           else if x = ''false'' then Some (EBool False, r)
           else if x \<in> set reserved then None
           else Some (EIdent x, r))
      | TplOpen # r \<Rightarrow>
          (case sub_parts p GTemplate r of
             None \<Rightarrow> None
           | Some (ps, r1) \<Rightarrow> Some (ETemplate ps, r1))
      | Punct q # r \<Rightarrow>
          (if q = ''('' then
             (case sub_expr p GExpr r of
                None \<Rightarrow> None
              | Some (e, r1) \<Rightarrow>
                  (case expect (Punct '')'') r1 of None \<Rightarrow> None | Some r2 \<Rightarrow> Some (e, r2)))
           else if q = ''['' then
             (case sub_exprs p (GElements '']'') r of
                None \<Rightarrow> None
              | Some (es, r1) \<Rightarrow> Some (EArray es, r1))
           else if q = ''{'' then
             (case sub_props p GProperties r of
                None \<Rightarrow> None
              | Some (ps, r1) \<Rightarrow> Some (EObject ps, r1))
           else None)
      | _ \<Rightarrow> None)"

text \<open>Member accesses and calls after an expression.\<close>

definition postfix_rest_rule :: "parser \<Rightarrow> expr \<Rightarrow> token list \<Rightarrow> (expr \<times> token list) option" where
  "postfix_rest_rule p e ts =
     (case ts of
        Punct q # r \<Rightarrow>
          (if q = ''.'' then
             (case r of
                Ident x # r1 \<Rightarrow> sub_expr p (GPostfixRest (EMember e x)) r1
              | _ \<Rightarrow> None)
           else if q = ''('' then
             (case sub_exprs p (GElements '')'') r of
                None \<Rightarrow> None
              | Some (as, r1) \<Rightarrow> sub_expr p (GPostfixRest (ECall e as)) r1)
           else Some (e, ts))
      | _ \<Rightarrow> Some (e, ts))"

text \<open>A postfix expression: \<open>new C(args)\<close> or a primary, then member accesses and
  calls.\<close>

definition postfix_rule :: "parser \<Rightarrow> token list \<Rightarrow> (expr \<times> token list) option" where
  "postfix_rule p ts =
     (if next_is (Ident ''new'') ts then
        (case type_ref (tl ts) of
           None \<Rightarrow> None
         | Some (c, r) \<Rightarrow>
             (case expect (Punct ''('') r of
                None \<Rightarrow> None
              | Some r1 \<Rightarrow>
                  (case sub_exprs p (GElements '')'') r1 of
                     None \<Rightarrow> None
                   | Some (as, r2) \<Rightarrow>
                       postfix_rest_rule p
                         (ENew (foldl EMember (EIdent (hd c)) (tl c)) as) r2)))
      else
        (case primary_rule p ts of
           None \<Rightarrow> None
         | Some (e, r) \<Rightarrow> postfix_rest_rule p e r))"

text \<open>Sums, \<open>satisfies\<close>, and equalities, in the order of their precedence.\<close>

definition additive_rest_rule :: "parser \<Rightarrow> expr \<Rightarrow> token list \<Rightarrow> (expr \<times> token list) option" where
  "additive_rest_rule p l ts =
     (if next_is (Punct ''+'') ts then
        (case postfix_rule p (tl ts) of
           None \<Rightarrow> None
         | Some (e, r) \<Rightarrow> sub_expr p (GAdditiveRest (EBinary ''+'' l e)) r)
      else Some (l, ts))"

definition additive_rule :: "parser \<Rightarrow> token list \<Rightarrow> (expr \<times> token list) option" where
  "additive_rule p ts =
     (case postfix_rule p ts of
        None \<Rightarrow> None
      | Some (l, r) \<Rightarrow> additive_rest_rule p l r)"

definition relational_rule :: "parser \<Rightarrow> token list \<Rightarrow> (expr \<times> token list) option" where
  "relational_rule p ts =
     (case additive_rule p ts of
        None \<Rightarrow> None
      | Some (e, r) \<Rightarrow>
          (if next_is (Ident ''satisfies'') r then
             (case type_ref (tl r) of None \<Rightarrow> None | Some (t, r1) \<Rightarrow> Some (ESatisfies e t, r1))
           else Some (e, r)))"

definition equality_rest_rule :: "parser \<Rightarrow> expr \<Rightarrow> token list \<Rightarrow> (expr \<times> token list) option" where
  "equality_rest_rule p l ts =
     (if next_is (Punct ''==='') ts then
        (case relational_rule p (tl ts) of
           None \<Rightarrow> None
         | Some (e, r) \<Rightarrow> sub_expr p (GEqualityRest (EBinary ''==='' l e)) r)
      else Some (l, ts))"

definition equality_rule :: "parser \<Rightarrow> token list \<Rightarrow> (expr \<times> token list) option" where
  "equality_rule p ts =
     (case relational_rule p ts of
        None \<Rightarrow> None
      | Some (l, r) \<Rightarrow> equality_rest_rule p l r)"

text \<open>An expression: an arrow function, or an equality with an optional conditional.\<close>

definition expr_rule :: "parser \<Rightarrow> token list \<Rightarrow> (expr \<times> token list) option" where
  "expr_rule p ts =
     (case arrow_head ts of
        Some (xs, r) \<Rightarrow>
          (case sub_expr p GExpr r of None \<Rightarrow> None | Some (b, r1) \<Rightarrow> Some (EArrow xs b, r1))
      | None \<Rightarrow>
          (case equality_rule p ts of
             None \<Rightarrow> None
           | Some (c, r) \<Rightarrow>
               (if next_is (Punct ''?'') r then
                  (case sub_expr p GExpr (tl r) of
                     None \<Rightarrow> None
                   | Some (a, r1) \<Rightarrow>
                       (case expect (Punct '':'') r1 of
                          None \<Rightarrow> None
                        | Some r2 \<Rightarrow>
                            (case sub_expr p GExpr r2 of
                               None \<Rightarrow> None
                             | Some (b, r3) \<Rightarrow> Some (ECond c a b, r3))))
                else Some (c, r))))"

text \<open>The rest of a template literal, after the backquote.\<close>

definition template_rule :: "parser \<Rightarrow> token list \<Rightarrow> (tpl_part list \<times> token list) option" where
  "template_rule p ts =
     (case ts of
        TplChunk s # r \<Rightarrow>
          (case sub_parts p GTemplate r of
             None \<Rightarrow> None
           | Some (ps, r1) \<Rightarrow> Some (Chunk s # ps, r1))
      | SubstOpen # r \<Rightarrow>
          (case sub_expr p GExpr r of
             None \<Rightarrow> None
           | Some (e, r1) \<Rightarrow>
               (case expect SubstClose r1 of
                  None \<Rightarrow> None
                | Some r2 \<Rightarrow>
                    (case sub_parts p GTemplate r2 of
                       None \<Rightarrow> None
                     | Some (ps, r3) \<Rightarrow> Some (Subst e # ps, r3))))
      | TplClose # r \<Rightarrow> Some ([], r)
      | _ \<Rightarrow> None)"

text \<open>The elements of an array or the arguments of a call, up to the closing bracket;
  a trailing comma is allowed, an empty element is not.\<close>

definition elements_rule ::
  "parser \<Rightarrow> string \<Rightarrow> token list \<Rightarrow> (expr list \<times> token list) option" where
  "elements_rule p close ts =
     (if next_is (Punct close) ts then Some ([], tl ts)
      else
        (case sub_expr p GExpr ts of
           None \<Rightarrow> None
         | Some (e, r) \<Rightarrow>
             (if next_is (Punct '','') r then
                (case sub_exprs p (GElements close) (tl r) of
                   None \<Rightarrow> None
                 | Some (es, r1) \<Rightarrow> Some (e # es, r1))
              else if next_is (Punct close) r then Some ([e], tl r)
              else None)))"

text \<open>One property of an object literal: \<open>key: value\<close> with an identifier or a string as
  the key, or the shorthand \<open>name\<close>.\<close>

definition property_rule :: "parser \<Rightarrow> token list \<Rightarrow> ((string \<times> expr) \<times> token list) option" where
  "property_rule p ts =
     (case ts of
        Ident k # r \<Rightarrow>
          (if next_is (Punct '':'') r then
             (case sub_expr p GExpr (tl r) of
                None \<Rightarrow> None
              | Some (v, r1) \<Rightarrow> Some ((k, v), r1))
           else if k \<in> set reserved then None
           else Some ((k, EIdent k), r))
      | StrLit k # r \<Rightarrow>
          (case expect (Punct '':'') r of
             None \<Rightarrow> None
           | Some r1 \<Rightarrow>
               (case sub_expr p GExpr r1 of
                  None \<Rightarrow> None
                | Some (v, r2) \<Rightarrow> Some ((k, v), r2)))
      | _ \<Rightarrow> None)"

text \<open>The properties of an object literal, up to the closing brace.\<close>

definition properties_rule ::
  "parser \<Rightarrow> token list \<Rightarrow> ((string \<times> expr) list \<times> token list) option" where
  "properties_rule p ts =
     (if next_is (Punct ''}'') ts then Some ([], tl ts)
      else
        (case property_rule p ts of
           None \<Rightarrow> None
         | Some (kv, r) \<Rightarrow>
             (if next_is (Punct '','') r then
                (case sub_props p GProperties (tl r) of
                   None \<Rightarrow> None
                 | Some (ps, r1) \<Rightarrow> Some (kv # ps, r1))
              else if next_is (Punct ''}'') r then Some ([kv], tl r)
              else None)))"

definition as_node :: "('a \<Rightarrow> node) \<Rightarrow> ('a \<times> token list) option \<Rightarrow> (node \<times> token list) option" where
  "as_node c x = (case x of None \<Rightarrow> None | Some (a, r) \<Rightarrow> Some (c a, r))"

primrec parse :: "nat \<Rightarrow> parser" where
  "parse 0 = (\<lambda>g ts. None)"
| "parse (Suc n) = (\<lambda>g ts.
     case g of
       GExpr \<Rightarrow> as_node NExpr (expr_rule (parse n) ts)
     | GEqualityRest l \<Rightarrow> as_node NExpr (equality_rest_rule (parse n) l ts)
     | GAdditiveRest l \<Rightarrow> as_node NExpr (additive_rest_rule (parse n) l ts)
     | GPostfixRest e \<Rightarrow> as_node NExpr (postfix_rest_rule (parse n) e ts)
     | GTemplate \<Rightarrow> as_node NParts (template_rule (parse n) ts)
     | GElements close \<Rightarrow> as_node NExprs (elements_rule (parse n) close ts)
     | GProperties \<Rightarrow> as_node NProps (properties_rule (parse n) ts))"

text \<open>An expression at the head of a token list. The descent is given two units for
  every token.\<close>

definition parse_expr :: "token list \<Rightarrow> (expr \<times> token list) option" where
  "parse_expr ts = sub_expr (parse (Suc (Suc (length ts + length ts)))) GExpr ts"

text \<open>Declarations. A semicolon after a declaration may be left out.\<close>

definition skip_semicolon :: "token list \<Rightarrow> token list" where
  "skip_semicolon ts = (if next_is (Punct '';'') ts then tl ts else ts)"

definition import_decl :: "token list \<Rightarrow> (stmt \<times> token list) option" where
  "import_decl ts =
     (let ts' = (if next_is (Ident ''type'') ts then tl ts else ts) in
      case (case ts' of
              Punct p # r \<Rightarrow>
                (if p = ''{'' then binding_names (length r) r
                 else if p = ''*'' then
                   (case r of
                      Ident k # Ident x # r' \<Rightarrow> (if k = ''as'' then Some ([x], r') else None)
                    | _ \<Rightarrow> None)
                 else None)
            | Ident x # r \<Rightarrow> Some ([x], r)
            | _ \<Rightarrow> None) of
        Some (xs, Ident k # StrLit m # r) \<Rightarrow>
          (if k = ''from'' then Some (SImport xs m, r) else None)
      | _ \<Rightarrow> None)"

definition const_decl :: "token list \<Rightarrow> (stmt \<times> token list) option" where
  "const_decl ts =
     (case ts of
        Ident x # r \<Rightarrow>
          (case (if next_is (Punct '':'') r then map_option snd (type_ref (tl r)) else Some r) of
             None \<Rightarrow> None
           | Some r' \<Rightarrow>
               (case expect (Punct ''='') r' of
                  None \<Rightarrow> None
                | Some r'' \<Rightarrow>
                    (case parse_expr r'' of
                       None \<Rightarrow> None
                     | Some (e, r''') \<Rightarrow> Some (SConst x e, r'''))))
      | _ \<Rightarrow> None)"

definition export_decl :: "token list \<Rightarrow> (stmt \<times> token list) option" where
  "export_decl ts =
     (case ts of
        Ident d # Ident x # r \<Rightarrow> (if d = ''default'' then Some (SExportDefault x, r) else None)
      | _ \<Rightarrow> None)"

fun parse_stmts :: "nat \<Rightarrow> token list \<Rightarrow> stmt list option" where
  "parse_stmts n [] = Some []"
| "parse_stmts 0 (t # ts) = None"
| "parse_stmts (Suc n) (t # ts) =
     (case (if t = Ident ''import'' then import_decl ts
            else if t = Ident ''const'' then const_decl ts
            else if t = Ident ''export'' then export_decl ts
            else None) of
        None \<Rightarrow> None
      | Some (s, r) \<Rightarrow>
          (case parse_stmts n (skip_semicolon r) of
             None \<Rightarrow> None
           | Some ss \<Rightarrow> Some (s # ss)))"

definition parse_source :: "string list \<Rightarrow> stmt list option" where
  "parse_source src =
     (case tokens src of None \<Rightarrow> None | Some ts \<Rightarrow> parse_stmts (length ts) ts)"

text \<open>The expression that a module binds to a constant.\<close>

fun const_named :: "string \<Rightarrow> stmt list \<Rightarrow> expr option" where
  "const_named x [] = None"
| "const_named x (SConst y e # ss) = (if x = y then Some e else const_named x ss)"
| "const_named x (_ # ss) = const_named x ss"

text \<open>No object literal inside an expression writes a key twice.\<close>

primrec keys_distinct :: "expr \<Rightarrow> bool"
  and part_keys_distinct :: "tpl_part \<Rightarrow> bool" where
  "keys_distinct (EStr s) = True"
| "keys_distinct (ENum s) = True"
| "keys_distinct (EBool b) = True"
| "keys_distinct (EIdent x) = True"
| "keys_distinct (ETemplate ps) = list_all (\<lambda>b. b) (map part_keys_distinct ps)"
| "keys_distinct (EMember e x) = keys_distinct e"
| "keys_distinct (ECall e as) = (keys_distinct e \<and> list_all (\<lambda>b. b) (map keys_distinct as))"
| "keys_distinct (ENew e as) = (keys_distinct e \<and> list_all (\<lambda>b. b) (map keys_distinct as))"
| "keys_distinct (EBinary op l r) = (keys_distinct l \<and> keys_distinct r)"
| "keys_distinct (ECond c a b) = (keys_distinct c \<and> keys_distinct a \<and> keys_distinct b)"
| "keys_distinct (EArray es) = list_all (\<lambda>b. b) (map keys_distinct es)"
| "keys_distinct (EObject ps) =
     (distinct (map fst ps)
      \<and> list_all snd (map (map_prod (\<lambda>k. k) keys_distinct) ps))"
| "keys_distinct (EArrow xs b) = keys_distinct b"
| "keys_distinct (ESatisfies e t) = keys_distinct e"
| "part_keys_distinct (Chunk s) = True"
| "part_keys_distinct (Subst e) = keys_distinct e"

text \<open>The tree of keys of a descriptor: what remains of an expression, or of a value,
  when only the object literals, their keys and the arrays are kept.\<close>

datatype key_tree =
    Leaf
  | Node "(string \<times> key_tree) list"
  | Items "key_tree list"

primrec expr_keys :: "expr \<Rightarrow> key_tree" where
  "expr_keys (EStr s) = Leaf"
| "expr_keys (ENum s) = Leaf"
| "expr_keys (EBool b) = Leaf"
| "expr_keys (EIdent x) = Leaf"
| "expr_keys (ETemplate ps) = Leaf"
| "expr_keys (EMember e x) = Leaf"
| "expr_keys (ECall e as) = Leaf"
| "expr_keys (ENew e as) = Leaf"
| "expr_keys (EBinary op l r) = Leaf"
| "expr_keys (ECond c a b) = Leaf"
| "expr_keys (EArray es) = Items (map expr_keys es)"
| "expr_keys (EObject ps) = Node (map (map_prod (\<lambda>k. k) expr_keys) ps)"
| "expr_keys (EArrow xs b) = Leaf"
| "expr_keys (ESatisfies e t) = expr_keys e"

primrec value_keys :: "js_value \<Rightarrow> key_tree" where
  "value_keys JUndefined = Leaf"
| "value_keys (JStr s) = Leaf"
| "value_keys (JNum n) = Leaf"
| "value_keys (JBool b) = Leaf"
| "value_keys (JArr xs) = Items (map value_keys xs)"
| "value_keys (JObj fs) = Node (map (map_prod (\<lambda>k. k) value_keys) fs)"
| "value_keys (JExt x) = Leaf"
| "value_keys (JFun f) = Leaf"

text \<open>What the text of a module says about the descriptor it binds to \<open>config\<close>: whether
  the text parses and, if it does, whether the keys of the descriptor are distinct at
  every depth, and the tree of its keys.\<close>

definition descriptor_report :: "string list \<Rightarrow> (bool \<times> key_tree) option" where
  "descriptor_report src =
     (case parse_source src of
        None \<Rightarrow> None
      | Some m \<Rightarrow>
          (case const_named ''config'' m of
             None \<Rightarrow> None
           | Some e \<Rightarrow> Some (keys_distinct e, expr_keys e)))"

section \<open>The text of the three configuration files\<close>

text \<open>Each file line by line, as bytes. The separator token that closes a file is not
  part of its text.\<close>

definition source_docusaurus_config :: "string list" where
  \<open>source_docusaurus_config =
     [''import type * as Preset from '@docusaurus/preset-classic';'',
      ''import type { Config } from '@docusaurus/types';'',
      ''import { themes as prismThemes } from 'prism-react-renderer';'',
      '''',
      ''const isDev = process.env.NODE_ENV === 'development';'',
      '''',
      ''const config: Config = {'',
      ''  title: 'Flutter Interview Prep','',
      ''  tagline: 'Curated Flutter interview questions and answers.','',
      ''  favicon: 'img/favicon.ico','',
      ''  future: { v4: true },'',
      ''  url: 'https://narayann.dev','',
      ''  baseUrl: isDev ? '/' : '/flutter-interview-prep/','',
      ''  organizationName: 'narayann7','',
      ''  projectName: 'flutter-interview-prep','',
      ''  deploymentBranch: 'gh-pages','',
      '''',
      ''  trailingSlash: false,'',
      ''  onBrokenLinks: 'warn','',
      ''  onBrokenMarkdownLinks: 'warn','',
      '''',
      ''  i18n: {'',
      ''    defaultLocale: 'en','',
      ''    locales: ['en'],'',
      ''  },'',
      '''',
      ''  presets: ['',
      ''    ['',
      ''      'classic','',
      ''      {'',
      ''        docs: {'',
      ''          sidebarPath: './sidebars.ts','',
      ''          editUrl:'',
      ''            'https://github.com/narayann7/flutter-interview-prep/edit/main/','',
      ''        },'',
      ''        blog: false,'',
      ''        theme: {'',
      ''          customCss: './src/css/custom.css','',
      ''        },'',
      ''        sitemap: {'',
      ''          changefreq: 'weekly','',
      ''          priority: 0.5,'',
      ''          filename: 'sitemap.xml','',
      ''        },'',
      ''      } satisfies Preset.Options,'',
      ''    ],'',
      ''  ],'',
      '''',
      ''  themeConfig: {'',
      ''    image: 'img/social-card.jpg','',
      ''    colorMode: {'',
      ''      respectPrefersColorScheme: true,'',
      ''    },'',
      ''    navbar: {'',
      ''      title: 'Flutter Interview Prep','',
      ''      logo: {'',
      ''        alt: 'Flutter Interview Prep Logo','',
      ''        src: 'img/logo.svg','',
      ''      },'',
      ''      items: ['',
      ''        {'',
      ''          href: 'https://github.com/narayann7/flutter-interview-prep','',
      ''          label: 'GitHub','',
      ''          position: 'right','',
      ''        },'',
      ''      ],'',
      ''    },'',
      ''    footer: {'',
      ''      style: 'dark','',
      ''      links: ['',
      ''        {'',
      ''          title: 'Docs','',
      ''          items: [{ label: 'Start', to: '/docs/intro' }],'',
      ''        },'',
      ''        {'',
      ''          title: 'Community','',
      ''          items: ['',
      ''            { label: 'Stack Overflow', href: 'https://stackoverflow.com/questions/tagged/flutter' },'',
      ''            { label: 'Twitter', href: 'https://x.com/docusaurus' },'',
      ''          ],'',
      ''        },'',
      ''      ],'',
      ''      copyright: `Copyright '' @ [CHR 0xC2, CHR 0xA9] @ '' ${new Date().getFullYear()} Narayann. Built with Docusaurus.`,'',
      ''    },'',
      ''    prism: {'',
      ''      theme: prismThemes.github,'',
      ''      darkTheme: prismThemes.dracula,'',
      ''    },'',
      ''    metadata: ['',
      ''      {'',
      ''        name: 'description','',
      ''        content: 'Prepare for your Flutter interviews with curated questions and answers.','',
      ''      },'',
      ''      {'',
      ''        name: 'keywords','',
      ''        content: 'Flutter, Dart, interview questions, SDE, coding prep','',
      ''      },'',
      ''    ],'',
      ''  },'',
      ''};'',
      '''',
      ''export default config;'']\<close>

definition source_part_004 :: "string list" where
  \<open>source_part_004 =
     [''import type * as Preset from '@docusaurus/preset-classic';'',
      ''import type { Config } from '@docusaurus/types';'',
      ''import { themes as prismThemes } from 'prism-react-renderer';'',
      ''import links from './src/utils/links';'',
      '''',
      '''',
      ''const config: Config = {'',
      ''  title: 'Flutter Interview Prep','',
      ''  tagline: 'Curated Flutter interview questions and answers.','',
      ''  favicon: 'img/flutter/icon_flutter.png','',
      ''  future: { v4: true },'',
      ''  url: links.hostedCoreURL,'',
      ''  baseUrl: "/",'',
      ''  organizationName: 'narayann7','',
      ''  projectName: 'flutter-interview-prep','',
      ''  deploymentBranch: 'main','',
      ''  trailingSlash: false,'',
      ''  onBrokenLinks: 'warn','',
      ''  onBrokenMarkdownLinks: 'warn','',
      ''  i18n: { defaultLocale: 'en', locales: ['en'] },'',
      ''  presets: ['',
      ''    ['',
      ''      'classic','',
      ''      {'',
      ''        docs: {'',
      ''          sidebarPath: './sidebars.ts','',
      ''          editUrl:'',
      ''            'https://github.com/narayann7/flutter-interview-prep/edit/main/','',
      ''        },'',
      ''        blog: false,'',
      ''        theme: {'',
      ''          customCss: './src/css/custom.css','',
      ''        },'',
      ''        sitemap: {'',
      ''          changefreq: 'weekly','',
      ''          priority: 0.5,'',
      ''          filename: 'sitemap.xml','',
      ''        },'',
      ''      } satisfies Preset.Options,'',
      ''    ],'',
      ''  ],'',
      '''',
      ''  themeConfig: {'',
      ''    image: 'img/social-card.jpg','',
      ''    colorMode: {'',
      ''      respectPrefersColorScheme: true,'',
      ''      defaultMode: 'dark','',
      ''    },'',
      '''',
      '''',
      ''    navbar: {'',
      '''',
      ''      title: 'Flutter Interview Prep','',
      ''      logo: {'',
      ''        alt: 'Flutter Interview Prep Logo','',
      ''        src: 'img/flutter/icon_flutter.svg','',
      ''      },'',
      ''      items: ['',
      ''        {'',
      ''          href: links.githubLink + '/flutter-interview-prep','',
      ''          label: 'GitHub','',
      ''          position: 'right','',
      ''        },'',
      ''        {'',
      ''          href: links.gmailLink,'',
      ''          label: 'Contact','',
      ''          position: 'right','',
      ''        }'',
      ''      ],'',
      ''    },'',
      ''    prism: {'',
      ''      theme: prismThemes.oceanicNext,'',
      ''      darkTheme: prismThemes.oceanicNext,'',
      ''      additionalLanguages: ['dart', 'java', 'graphql'],'',
      '''',
      ''    },'',
      ''    metadata: ['',
      ''      // --- Basic SEO ---'',
      ''      {'',
      ''        name: 'description','',
      ''        content:'',
      ''          'Prepare for your Flutter interviews with curated questions, answers, and topic guides. Built for SDE2 aspirants and Flutter developers.','',
      ''      },'',
      ''      {'',
      ''        name: 'keywords','',
      ''        content:'',
      ''          'Flutter, Dart, interview questions, SDE, coding prep, DSA, software developer, mobile app, technical interview, flutter web','',
      ''      },'',
      ''      { name: 'author', content: 'Narayann Dev' },'',
      ''      { name: 'robots', content: 'index, follow' },'',
      '''',
      ''      // --- Open Graph (for social sharing) ---'',
      ''      { property: 'og:title', content: 'Flutter Interview Prep Guide' },'',
      ''      {'',
      ''        property: 'og:description','',
      ''        content:'',
      ''          'Curated Flutter interview questions and detailed answers for aspiring SDE2 and mobile developers.','',
      ''      },'',
      ''      { property: 'og:type', content: 'website' },'',
      ''      { property: 'og:url', content: links.hostedCoreURL },'',
      ''      // { property: 'og:image', content: 'https://narayann.dev/img/flutter-cover.png' },'',
      '''',
      ''      // --- Twitter Cards ---'',
      ''      // { name: 'twitter:card', content: 'summary_large_image' },'',
      ''      // { name: 'twitter:title', content: 'Flutter Interview Prep Guide' },'',
      ''      // {'',
      ''      //   name: 'twitter:description','',
      ''      //   content:'',
      ''      //     'Ace your Flutter interviews with topic-wise curated questions, examples, and explanations.','',
      ''      // },'',
      ''      // { name: 'twitter:image', content: 'https://narayann.dev/img/flutter-cover.png' },'',
      ''      // { name: 'twitter:creator', content: '@narayann_dev' },'',
      '''',
      ''      // --- Canonical ---'',
      ''      // { rel: 'canonical', href: 'https://narayann.dev/flutter-interview-prep/' },'',
      ''    ],'',
      '''',
      ''  },'',
      ''};'',
      '''',
      ''export default config;'']\<close>

definition source_part_005 :: "string list" where
  \<open>source_part_005 =
     [''import type * as Preset from '@docusaurus/preset-classic';'',
      ''import type { Config } from '@docusaurus/types';'',
      ''import { themes as prismThemes } from 'prism-react-renderer';'',
      '''',
      '''',
      ''const coreDomainUrl = "https://narayann.dev"'',
      ''const baseGitHubUrl = 'https://github.com/narayann7/';'',
      ''const config: Config = {'',
      ''  title: 'Flutter Interview Prep','',
      ''  tagline: 'Prepare for your Flutter interviews with curated questions and answers.','',
      ''  favicon: 'img/favicon.ico','',
      ''  future: { v4: true },'',
      '''',
      ''  // '' @ [CHR 0xE2, CHR 0x9C, CHR 0x85] @ '' For GitHub Pages'',
      ''  url: 'https://narayann7.github.io','',
      ''  baseUrl: '/flutter-interview-prep/','',
      '''',
      ''  organizationName: 'narayann7','',
      ''  projectName: 'flutter-interview-prep','',
      '''',
      ''  onBrokenLinks: 'throw','',
      ''  i18n: {'',
      ''    defaultLocale: 'en','',
      ''    locales: ['en'],'',
      ''  },'',
      ''  presets: ['',
      ''    ['',
      ''      'classic','',
      ''      {'',
      ''        docs: {'',
      ''          sidebarPath: './sidebars.ts','',
      ''          editUrl: ({ versionDocsDirPath, docPath }) =>'',
      ''            `${baseGitHubUrl}flutter-interview-prep/blob/main/${versionDocsDirPath}/${docPath}`,'',
      ''        },'',
      ''        theme: {'',
      ''          customCss: './src/css/custom.css','',
      ''        },'',
      ''      } satisfies Preset.Options,'',
      ''    ],'',
      ''  ],'',
      ''  themeConfig: {'',
      ''    image: 'img/docusaurus-social-card.jpg','',
      ''    colorMode: {'',
      ''      respectPrefersColorScheme: true,'',
      ''    },'',
      ''    navbar: {'',
      ''      title: 'Flutter Interview Prep','',
      ''      logo: {'',
      ''        alt: 'Flutter Interview Prep Logo','',
      ''        src: 'img/logo.svg','',
      ''      },'',
      ''      items: ['',
      ''        {'',
      ''          href: `${baseGitHubUrl}flutter-interview-prep`,'',
      ''          label: 'GitHub','',
      ''          position: 'right','',
      ''        },'',
      ''      ],'',
      ''    },'',
      ''    footer: {'',
      ''      style: 'dark','',
      ''      links: ['',
      ''        {'',
      ''          title: 'Docs','',
      ''          items: [{ label: 'Intro', to: '/docs/intro' }],'',
      ''        },'',
      ''        {'',
      ''          title: 'Community','',
      ''          items: ['',
      ''            { label: 'Stack Overflow', href: 'https://stackoverflow.com/questions/tagged/docusaurus' },'',
      ''            { label: 'Discord', href: 'https://discordapp.com/invite/docusaurus' },'',
      ''            { label: 'X', href: 'https://x.com/docusaurus' },'',
      ''          ],'',
      ''        },'',
      ''      ],'',
      ''      copyright: `Copyright '' @ [CHR 0xC2, CHR 0xA9] @ '' ${new Date().getFullYear()} Narayan N. Built with Docusaurus.`,'',
      ''    },'',
      ''    prism: {'',
      ''      theme: prismThemes.github,'',
      ''      darkTheme: prismThemes.dracula,'',
      ''    },'',
      ''  } satisfies Preset.ThemeConfig,'',
      ''};'']\<close>

section \<open>Facts about the literals\<close>

lemmas link_defs = links_def linkedinLink_def githubLink_def gmailLink_def twitterLink_def
  stackoverflowLink_def portfolioLink_def hostedCoreURL_def

lemma links_resolved:
  "get links ''hostedCoreURL'' = JStr ''https://flutterprep.narayann.dev''"
  "get links ''gmailLink'' = JStr ''mailto:social@narayann.dev''"
  "js_add (get links ''githubLink'') (JStr ''/flutter-interview-prep'')
     = JStr ''https://github.com/narayann7/flutter-interview-prep''"
  by (simp_all add: link_defs)

lemma corpus_front_matters_length: "length (front_matters corpus) = 4"
  by (simp add: corpus_def)

lemma corpus_declared_ids:
  "declared_ids (front_matters corpus) =
     [''intro'', ''welcome'', ''flutter_trees_and_rendering_pipeline'',
      ''buildcontext_and_lifecycle'']"
  by (simp add: corpus_def)

lemma sidebars_entries:
  "entries sidebars =
     [JObj [(''type'', JStr ''doc''), (''id'', JStr ''welcome''), (''label'', JStr ''Welcome'')],
      JObj
       [(''type'', JStr ''category''),
        (''label'', JStr ''Fundamentals''),
        (''items'', JArr
          [JStr ''fundamentals/widgets_overview'',
           JStr ''fundamentals/stateless_vs_stateful'',
           JStr ''fundamentals/buildcontext_and_lifecycle'',
           JStr ''fundamentals/keys_in_flutter'',
           JStr ''fundamentals/container_const_explained''])]]"
  by (simp add: sidebars_def entries_def)

lemma sidebars_doc_entry_ids:
  "doc_entry_ids sidebars = [''welcome'']"
  "doc_entry_ids sidebars_part_003 = [''welcome'']"
  by (simp_all add: sidebars_def sidebars_part_003_def doc_entry_ids_def entries_def
      is_doc_def str_is_def is_str_def)

lemma sidebars_category_items:
  "category_items sidebars =
     [''fundamentals/widgets_overview'',
      ''fundamentals/stateless_vs_stateful'',
      ''fundamentals/buildcontext_and_lifecycle'',
      ''fundamentals/keys_in_flutter'',
      ''fundamentals/container_const_explained'']"
  by (simp add: sidebars_entries category_items_def)

lemma sidebars_part_003_category_items:
  "category_items sidebars_part_003 =
     [''fundamentals/widgets_overview'',
      ''fundamentals/stateless_vs_stateful'',
      ''fundamentals/buildcontext_and_lifecycle'',
      ''fundamentals/keys_in_flutter'',
      ''fundamentals/container_const_explained'',
      ''layouts_and_rendering/repaint_boundary'',
      ''layouts_and_rendering/flexible_and_flex'',
      ''layouts_and_rendering/custom_paint_and_canvas'',
      ''layouts_and_rendering/performance_optimization_tips'',
      ''dart_language_concepts/mixins_in_dart'',
      ''dart_language_concepts/iterables_vs_lists'',
      ''dart_language_concepts/async_asyncstar_syncstar'',
      ''dart_language_concepts/throttle_vs_debounce'',
      ''architecture_and_engine/flutter_engine_internals'',
      ''architecture_and_engine/tree_shaking'',
      ''architecture_and_engine/build_modes'',
      ''architecture_and_engine/state_in_flutter'',
      ''architecture_and_engine/flutter_trees_and_rendering_pipeline'',
      ''packages_and_plugins/difference_packages_plugins'',
      ''packages_and_plugins/dependency_management_best_practices'',
      ''state_management/stateful_widget_lifecycle'',
      ''state_management/provider_and_inheritedwidget'',
      ''state_management/bloc_and_riverpod_intro'',
      ''state_management/comparison_of_state_management'',
      ''streams_and_async/streams_basics'',
      ''streams_and_async/stream_transformers'',
      ''streams_and_async/streambuilder_widget'',
      ''streams_and_async/best_practices_for_streams'',
      ''links_and_navigation/deep_linking'',
      ''links_and_navigation/dynamic_linking'',
      ''links_and_navigation/navigation_and_routes'',
      ''advanced_topics/custom_widget_examples'',
      ''advanced_topics/animation_with_custompaint'',
      ''advanced_topics/app_lifecycle_states'',
      ''advanced_topics/flutter_performance_insights'']"
  by (simp add: sidebars_part_003_def category_items_def entries_def)

lemma config_link_items:
  "navbar_items (config env) @ footer_items (config env) =
     [JObj
       [(''href'', JStr ''https://github.com/narayann7/flutter-interview-prep''),
        (''label'', JStr ''GitHub''),
        (''position'', JStr ''right'')],
      JObj [(''label'', JStr ''Start''), (''to'', JStr ''/docs/intro'')],
      JObj
       [(''label'', JStr ''Stack Overflow''),
        (''href'', JStr ''https://stackoverflow.com/questions/tagged/flutter'')],
      JObj [(''label'', JStr ''Twitter''), (''href'', JStr ''https://x.com/docusaurus'')]]"
  by (simp add: config_def navbar_items_def footer_items_def)

lemma config_part_004_link_items:
  "navbar_items config_part_004 @ footer_items config_part_004 =
     [JObj
       [(''href'', JStr ''https://github.com/narayann7/flutter-interview-prep''),
        (''label'', JStr ''GitHub''),
        (''position'', JStr ''right'')],
      JObj
       [(''href'', JStr ''mailto:social@narayann.dev''),
        (''label'', JStr ''Contact''),
        (''position'', JStr ''right'')]]"
  by (simp add: config_part_004_def navbar_items_def footer_items_def links_resolved)

lemma config_part_005_link_items:
  "navbar_items (config_part_005 env) @ footer_items (config_part_005 env) =
     [JObj
       [(''href'', JStr ''https://github.com/narayann7/flutter-interview-prep''),
        (''label'', JStr ''GitHub''),
        (''position'', JStr ''right'')],
      JObj [(''label'', JStr ''Intro''), (''to'', JStr ''/docs/intro'')],
      JObj
       [(''label'', JStr ''Stack Overflow''),
        (''href'', JStr ''https://stackoverflow.com/questions/tagged/docusaurus'')],
      JObj
       [(''label'', JStr ''Discord''),
        (''href'', JStr ''https://discordapp.com/invite/docusaurus'')],
      JObj [(''label'', JStr ''X''), (''href'', JStr ''https://x.com/docusaurus'')]]"
  by (simp add: config_part_005_def navbar_items_def footer_items_def baseGitHubUrl_def)

lemmas link_checks = link_item_ok_def absolute_url_def site_relative_def starts_with_def

section \<open>Navigation references and the corpus\<close>

lemma corpus_document_ids:
  "map document_id corpus =
     [''intro'', ''welcome'', ''graphql'', ''graphql'',
      ''String, StringBuffer and StringBuilder'', ''flutter_trees_and_rendering_pipeline'',
      ''android'', ''keypoints'', ''keypoints'', ''soild'', ''buildcontext_and_lifecycle'',
      ''part_001'', ''part_002'']"
  by (simp add: corpus_def document_id_def file_stem_def last_segment_def)

text \<open>The references of the two sidebars that meet a document of the corpus.\<close>

lemma references_resolved:
  "filter (resolves corpus) (referenced_ids sidebars)
     = [''welcome'', ''fundamentals/buildcontext_and_lifecycle'']"
  "filter (resolves corpus) (referenced_ids sidebars_part_003)
     = [''welcome'', ''fundamentals/buildcontext_and_lifecycle'',
        ''architecture_and_engine/flutter_trees_and_rendering_pipeline'']"
  by (simp_all add: referenced_ids_def sidebars_doc_entry_ids sidebars_category_items
      sidebars_part_003_category_items resolves_def corpus_document_ids last_segment_def)


section \<open>Broken links\<close>

text \<open>
  Claim C2, as stated: in every configuration descriptor of the repository,
  \<open>onBrokenLinks\<close> and \<open>onBrokenMarkdownLinks\<close> equal \<open>warn\<close>. It fails at the
  configuration of part\_005, which sets \<open>onBrokenLinks\<close> to \<open>throw\<close> and does not set
  \<open>onBrokenMarkdownLinks\<close> at all.
\<close>

theorem config_part_005_throws_on_broken_links:
  "get (config_part_005 \<lparr>NODE_ENV = None, fullYear = 2025\<rparr>) ''onBrokenLinks'' = JStr ''throw''
   \<and> JStr ''throw'' \<noteq> JStr ''warn''
   \<and> get (config_part_005 \<lparr>NODE_ENV = None, fullYear = 2025\<rparr>) ''onBrokenMarkdownLinks''
      = JUndefined"
  by (simp add: config_part_005_def)

text \<open>
  Claim C2, amended: the configuration of docusaurus.config.ts and the configuration of
  part\_004 set both \<open>onBrokenLinks\<close> and \<open>onBrokenMarkdownLinks\<close> to \<open>warn\<close>, in every
  environment; the configuration of part\_005 sets \<open>onBrokenLinks\<close> to \<open>throw\<close> and leaves
  \<open>onBrokenMarkdownLinks\<close> unset.
\<close>

theorem broken_link_settings:
  "get (config env) ''onBrokenLinks'' = JStr ''warn''
   \<and> get (config env) ''onBrokenMarkdownLinks'' = JStr ''warn''
   \<and> get config_part_004 ''onBrokenLinks'' = JStr ''warn''
   \<and> get config_part_004 ''onBrokenMarkdownLinks'' = JStr ''warn''
   \<and> get (config_part_005 env') ''onBrokenLinks'' = JStr ''throw''
   \<and> get (config_part_005 env') ''onBrokenMarkdownLinks'' = JUndefined"
  by (simp add: config_def config_part_004_def config_part_005_def)

section \<open>Front-matter\<close>

text \<open>
  Claim C3: every front-matter block of the corpus has the fields \<open>id\<close> and \<open>title\<close>, and
  the declared ids are unique across the corpus. Each of the four blocks declares a
  string id (the list of declared ids is as long as the list of blocks), and the four
  ids are pairwise different.
\<close>

theorem front_matter_ids_present_and_unique:
  "list_all (\<lambda>fm. ''id'' \<in> set (field_names fm) \<and> ''title'' \<in> set (field_names fm))
     (front_matters corpus)
   \<and> length (declared_ids (front_matters corpus)) = length (front_matters corpus)
   \<and> distinct (declared_ids (front_matters corpus))"
proof -
  have present:
    "list_all (\<lambda>fm. ''id'' \<in> set (field_names fm) \<and> ''title'' \<in> set (field_names fm))
       (front_matters corpus)"
    by (simp add: corpus_def field_names_def)
  have "distinct (declared_ids (front_matters corpus))"
    by (simp add: corpus_declared_ids)
  with present show ?thesis
    by (simp add: corpus_declared_ids corpus_front_matters_length)
qed

text \<open>
  Claim C7, as stated: a front-matter block uses only the fields id, title, sidebar
  position, tags, description and keywords. It fails at the block of part\_000 (the
  fourth block of the corpus), which has the field \<open>sidebar_label\<close>.
\<close>

theorem front_matter_field_outside_the_set:
  "front_matters corpus ! 3 =
     [(''id'', YStr ''buildcontext_and_lifecycle''),
      (''title'', YStr ''BuildContext and Lifecycle''),
      (''sidebar_label'', YStr ''BuildContext and Lifecycle''),
      (''sidebar_position'', YInt 1),
      (''tags'', YSeq [''Intermediate'', ''Widgets'']),
      (''description'', YStr
         ''Explanation of BuildContext and the widget lifecycle in Flutter.''),
      (''keywords'', YSeq [''Flutter'', ''BuildContext'', ''Lifecycle''])]
   \<and> ''sidebar_label'' \<in> set (field_names (front_matters corpus ! 3))
   \<and> ''sidebar_label''
        \<notin> set [''id'', ''title'', ''sidebar_position'', ''tags'', ''description'', ''keywords'']"
  by (simp add: corpus_def field_names_def)

text \<open>
  Claim C7, amended: a front-matter block uses only the fields id, title, sidebar\_label,
  sidebar\_position, tags, description and keywords.
\<close>

theorem front_matter_fields:
  "list_all
     (\<lambda>fm. list_all
        (\<lambda>k. k \<in> set [''id'', ''title'', ''sidebar_label'', ''sidebar_position'', ''tags'',
                       ''description'', ''keywords''])
        (field_names fm))
     (front_matters corpus)"
  by (simp add: corpus_def field_names_def)

section \<open>The configuration and its environment\<close>

text \<open>
  Claim C4, as stated: evaluating the configuration gives every key the same value,
  whatever \<open>NODE_ENV\<close> and the current date are. It fails for docusaurus.config.ts:
  \<open>baseUrl\<close> is \<open>/\<close> under \<open>NODE_ENV = development\<close> and \<open>/flutter-interview-prep/\<close> under
  \<open>NODE_ENV = production\<close>, and the footer copyright of 2025 is not that of 2026.
\<close>

theorem config_varies_with_environment:
  "get (config \<lparr>NODE_ENV = Some ''development'', fullYear = 2025\<rparr>) ''baseUrl'' = JStr ''/''
   \<and> get (config \<lparr>NODE_ENV = Some ''production'', fullYear = 2025\<rparr>) ''baseUrl''
      = JStr ''/flutter-interview-prep/''
   \<and> get (get (get (config \<lparr>NODE_ENV = Some ''production'', fullYear = 2025\<rparr>)
        ''themeConfig'') ''footer'') ''copyright''
      \<noteq> get (get (get (config \<lparr>NODE_ENV = Some ''production'', fullYear = 2026\<rparr>)
        ''themeConfig'') ''footer'') ''copyright''"
  by (simp add: config_def isDev_def number_to_string_def)

text \<open>
  Claim C4, amended: the configuration is a function of two readings of the environment,
  whether \<open>NODE_ENV\<close> is \<open>development\<close> and the current year. Two evaluations that agree
  on both give the same configuration, hence the same value for every key; this holds
  for docusaurus.config.ts and for the configuration of part\_005 (the configuration of
  part\_004 reads nothing from the environment).
\<close>

theorem config_determined_by_mode_and_year:
  assumes "isDev e1 = isDev e2" and "fullYear e1 = fullYear e2"
  shows "config e1 = config e2 \<and> config_part_005 e1 = config_part_005 e2"
  using assms by (simp add: config_def config_part_005_def)

theorem config_determined_by_mode_and_year_witness:
  "isDev \<lparr>NODE_ENV = None, fullYear = 2025\<rparr>
     = isDev \<lparr>NODE_ENV = Some ''production'', fullYear = 2025\<rparr>
   \<and> fullYear \<lparr>NODE_ENV = None, fullYear = 2025\<rparr>
     = fullYear \<lparr>NODE_ENV = Some ''production'', fullYear = 2025\<rparr>
   \<and> config \<lparr>NODE_ENV = None, fullYear = 2025\<rparr>
     = config \<lparr>NODE_ENV = Some ''production'', fullYear = 2025\<rparr>
   \<and> config_part_005 \<lparr>NODE_ENV = None, fullYear = 2025\<rparr>
     = config_part_005 \<lparr>NODE_ENV = Some ''production'', fullYear = 2025\<rparr>"
proof -
  have mode: "isDev \<lparr>NODE_ENV = None, fullYear = 2025\<rparr>
      = isDev \<lparr>NODE_ENV = Some ''production'', fullYear = 2025\<rparr>"
    by (simp add: isDev_def)
  have year: "fullYear \<lparr>NODE_ENV = None, fullYear = 2025\<rparr>
      = fullYear \<lparr>NODE_ENV = Some ''production'', fullYear = 2025\<rparr>"
    by simp
  from config_determined_by_mode_and_year [OF mode year] mode year show ?thesis
    by blast
qed

text \<open>The text of each configuration parses; in the expression it binds to \<open>config\<close> no
  object literal writes a key twice; and the tree of its keys is that of the embedded
  value.\<close>

lemma report_docusaurus_config:
  "descriptor_report source_docusaurus_config = Some (True, value_keys (config env))"
  by code_simp

lemma report_part_004:
  "descriptor_report source_part_004 = Some (True, value_keys config_part_004)"
  by code_simp

lemma report_part_005:
  "descriptor_report source_part_005 = Some (True, value_keys (config_part_005 env))"
  by code_simp

text \<open>The report tells a key written twice, and text that is not well formed: an array
  left open, a string left open, a property without its colon, an empty element.\<close>

lemma report_duplicate_key:
  "descriptor_report [''const config = { a: 1, b: { c: 'x', c: 'y' } };'']
     = Some (False, Node [(''a'', Leaf), (''b'', Node [(''c'', Leaf), (''c'', Leaf)])])"
  by code_simp

lemma report_malformed:
  "descriptor_report [''const config = { a: 1, b: [ };''] = None"
  "descriptor_report [''const config = { a: 'x };''] = None"
  "descriptor_report [''const config = { a 1 };''] = None"
  "descriptor_report [''const config = { a: [1,,2] };''] = None"
  by code_simp+

text \<open>
  Claim C6: every configuration descriptor parses as well-formed structured data and has
  no key written twice in any object, at any nesting level. The text of each of the
  three descriptor files parses; the object literal bound to \<open>config\<close> has pairwise
  different keys in every object literal inside it; its tree of keys is the tree of keys
  of the embedded value, which in turn has no duplicate key at any depth.
\<close>

theorem configs_parse_without_duplicate_keys:
  "descriptor_report source_docusaurus_config = Some (True, value_keys (config env))
   \<and> descriptor_report source_part_004 = Some (True, value_keys config_part_004)
   \<and> descriptor_report source_part_005 = Some (True, value_keys (config_part_005 env'))
   \<and> no_duplicate_keys (config env)
   \<and> no_duplicate_keys config_part_004
   \<and> no_duplicate_keys (config_part_005 env')"
proof -
  have "no_duplicate_keys (config env)"
    by (simp add: config_def)
  moreover have "no_duplicate_keys config_part_004"
    by (simp add: config_part_004_def links_resolved)
  moreover have "no_duplicate_keys (config_part_005 env')"
    by (simp add: config_part_005_def)
  ultimately show ?thesis
    using report_docusaurus_config [of env] report_part_004 report_part_005 [of env']
    by blast
qed

text \<open>
  Claim C8: the three versions of the configuration agree on the identifying fields:
  each sets \<open>title\<close> to \<open>Flutter Interview Prep\<close>, \<open>organizationName\<close> to \<open>narayann7\<close> and
  \<open>projectName\<close> to \<open>flutter-interview-prep\<close>.
\<close>

theorem configs_agree_on_identity:
  "map (get (config env)) [''title'', ''organizationName'', ''projectName'']
     = [JStr ''Flutter Interview Prep'', JStr ''narayann7'', JStr ''flutter-interview-prep'']
   \<and> map (get config_part_004) [''title'', ''organizationName'', ''projectName'']
     = [JStr ''Flutter Interview Prep'', JStr ''narayann7'', JStr ''flutter-interview-prep'']
   \<and> map (get (config_part_005 env')) [''title'', ''organizationName'', ''projectName'']
     = [JStr ''Flutter Interview Prep'', JStr ''narayann7'', JStr ''flutter-interview-prep'']"
  by (simp add: config_def config_part_004_def config_part_005_def)

text \<open>
  Claim C9: every constant that the links module exports is a string beginning with
  \<open>https://\<close> or \<open>mailto:\<close>, and every item of the navbar and of the footer, in each of the
  three configurations, has such an \<open>href\<close> or a \<open>to\<close> path beginning with \<open>/\<close>.
\<close>

theorem links_absolute_and_items_linked:
  "list_all (\<lambda>f. absolute_url (snd f)) (object_fields links)
   \<and> list_all link_item_ok (navbar_items (config env) @ footer_items (config env))
   \<and> list_all link_item_ok (navbar_items config_part_004 @ footer_items config_part_004)
   \<and> list_all link_item_ok
        (navbar_items (config_part_005 env') @ footer_items (config_part_005 env'))"
proof -
  have exported: "list_all (\<lambda>f. absolute_url (snd f)) (object_fields links)"
    by (simp add: link_defs absolute_url_def starts_with_def)
  have "list_all link_item_ok (navbar_items (config env) @ footer_items (config env))"
    unfolding config_link_items by (simp add: link_checks)
  moreover have
    "list_all link_item_ok (navbar_items config_part_004 @ footer_items config_part_004)"
    unfolding config_part_004_link_items by (simp add: link_checks)
  moreover have "list_all link_item_ok
      (navbar_items (config_part_005 env') @ footer_items (config_part_005 env'))"
    unfolding config_part_005_link_items by (simp add: link_checks)
  ultimately show ?thesis using exported by blast
qed

section \<open>The shape of the sidebar\<close>

text \<open>
  Claim C5, as stated: every top-level entry of the sidebar is a category with a string
  label and a list of document identifiers. It fails at the first entry of sidebars.ts,
  which is a doc entry (type \<open>doc\<close>, no items).
\<close>

theorem sidebar_first_entry_not_category:
  "entries sidebars ! 0
     = JObj [(''type'', JStr ''doc''), (''id'', JStr ''welcome''), (''label'', JStr ''Welcome'')]
   \<and> \<not> is_category (entries sidebars ! 0)"
  by (simp add: sidebars_entries is_category_def str_is_def)

text \<open>
  Claim C5, amended: in both versions of the sidebar the first top-level entry is a doc
  entry, with a string id and a string label, and every later top-level entry is a
  category carrying a string label and an ordered list of document-identifier strings.
\<close>

theorem sidebar_doc_entry_then_categories:
  "is_doc (hd (entries sidebars)) \<and> list_all is_category (tl (entries sidebars))
   \<and> is_doc (hd (entries sidebars_part_003))
   \<and> list_all is_category (tl (entries sidebars_part_003))"
  by (simp add: sidebars_def sidebars_part_003_def entries_def is_category_def is_doc_def
      str_is_def is_str_def)

text \<open>
  Claim C10: in both versions of the sidebar descriptor the exported object has exactly
  one key, \<open>tutorialSidebar\<close>, and its first entry is the doc entry with id \<open>welcome\<close> and
  label \<open>Welcome\<close>.
\<close>

theorem sidebar_single_key_welcome_first:
  "map fst (object_fields sidebars) = [''tutorialSidebar'']
   \<and> hd (entries sidebars)
      = JObj [(''type'', JStr ''doc''), (''id'', JStr ''welcome''), (''label'', JStr ''Welcome'')]
   \<and> map fst (object_fields sidebars_part_003) = [''tutorialSidebar'']
   \<and> hd (entries sidebars_part_003)
      = JObj [(''type'', JStr ''doc''), (''id'', JStr ''welcome''), (''label'', JStr ''Welcome'')]"
  by (simp add: sidebars_def sidebars_part_003_def entries_def)

end
